theory Spec2Isabelle
  imports Main "HOL-Library.Word" "HOL-Library.Char_ord" "HOL-Library.List_Lexorder"
begin

unbundle bit_operations_syntax

section \<open>Python values used by the program\<close>

text \<open>
  A Python \<open>str\<close> is modelled as a \<^typ>\<open>string\<close>: a list of code points below 256.
  Strings are compared as Python compares them, lexicographically by code point
  (the order of \<open>List_Lexorder\<close> over \<open>Char_ord\<close>).

  The exceptions the program can raise are values of \<open>error\<close>; a function that can raise
  returns \<open>error + 'a\<close> together with the state it leaves behind.
\<close>

datatype error =
    ServiceError string
  | OSError string
  | JSONDecodeError
  | TypeError
  | KeyError
  | AttributeError
  | FileNotFoundError
  | RecursionError

text \<open>
  The values \<open>json.loads\<close> returns and \<open>json.dumps\<close> accepts. A float is given by
  its \<open>repr\<close>, the only thing the program can observe of it.
\<close>

datatype json =
    JNull
  | JBool bool
  | JInt int
  | JFloat string
  | JStr string
  | JList "json list"
  | JDict "(string \<times> json) list"

text \<open>
  A Python \<open>dict\<close> keeps its items in insertion order: an association list whose keys are
  distinct. Assigning to a present key keeps the key's position and replaces the value.
\<close>

fun dict_set :: "'k \<Rightarrow> 'v \<Rightarrow> ('k \<times> 'v) list \<Rightarrow> ('k \<times> 'v) list" where
  "dict_set k v [] = [(k, v)]"
| "dict_set k v ((k', v') # kvs) =
     (if k = k' then (k, v) # kvs else (k', v') # dict_set k v kvs)"

text \<open>
  A Python \<open>set\<close> is a duplicate-free list in insertion order. The order in which Python
  iterates over a set is not the insertion order; it is a parameter of the model
  (\<open>set_iter\<close> below).
\<close>

definition set_add :: "'a \<Rightarrow> 'a list \<Rightarrow> 'a list" where
  "set_add x xs = (if x \<in> set xs then xs else xs @ [x])"

definition py_set :: "'a list \<Rightarrow> 'a list" where
  "py_set xs = fold set_add xs []"

fun join_str :: "string \<Rightarrow> string list \<Rightarrow> string" where
  "join_str sep [] = []"
| "join_str sep [x] = x"
| "join_str sep (x # y # ys) = x @ sep @ join_str sep (y # ys)"

definition endswith :: "string \<Rightarrow> string \<Rightarrow> bool" where
  "endswith s suffix \<longleftrightarrow>
     length suffix \<le> length s \<and> drop (length s - length suffix) s = suffix"

subsection \<open>\<open>str(int)\<close> and hexadecimal digits\<close>

definition digit_char :: "nat \<Rightarrow> char" where
  "digit_char n = ''0123456789'' ! (n mod 10)"

function nat_str :: "nat \<Rightarrow> string" where
  "nat_str n = (if n < 10 then [digit_char n] else nat_str (n div 10) @ [digit_char n])"
  by pat_completeness auto
termination
  by (relation "measure (\<lambda>n. n)") auto

declare nat_str.simps [simp del]

definition int_str :: "int \<Rightarrow> string" where
  "int_str i = (if i < 0 then CHR ''-'' # nat_str (nat (- i)) else nat_str (nat i))"

definition hex_digit :: "nat \<Rightarrow> char" where
  "hex_digit n = ''0123456789abcdef'' ! (n mod 16)"

definition hex_byte :: "nat \<Rightarrow> string" where
  "hex_byte b = [hex_digit (b div 16), hex_digit b]"

section \<open>\<open>json.dumps(..., sort_keys=True)\<close>\<close>

text \<open>
  \<open>py_encode_basestring_ascii\<close> of the \<open>json\<close> module: printable ASCII is kept, the
  quote and the backslash are escaped, the control characters listed in \<open>ESCAPE_DCT\<close>
  have short escapes, everything else becomes \<open>\uXXXX\<close>.
\<close>

definition escape_char :: "char \<Rightarrow> string" where
  "escape_char c =
     (if c = CHR 0x5C then [CHR 0x5C, CHR 0x5C]
      else if c = CHR 0x22 then [CHR 0x5C, CHR 0x22]
      else if c = CHR 0x08 then [CHR 0x5C, CHR ''b'']
      else if c = CHR 0x0C then [CHR 0x5C, CHR ''f'']
      else if c = CHR 0x0A then [CHR 0x5C, CHR ''n'']
      else if c = CHR 0x0D then [CHR 0x5C, CHR ''r'']
      else if c = CHR 0x09 then [CHR 0x5C, CHR ''t'']
      else if (of_char c :: nat) < 32 \<or> 126 < (of_char c :: nat)
      then [CHR 0x5C, CHR ''u'', CHR ''0'', CHR ''0''] @ hex_byte (of_char c)
      else [c])"

definition py_encode_basestring_ascii :: "string \<Rightarrow> string" where
  "py_encode_basestring_ascii s = [CHR 0x22] @ concat (map escape_char s) @ [CHR 0x22]"

text \<open>
  With \<open>sort_keys=True\<close> the items of every dict are written in the order of their keys;
  the separators are the defaults \<open>", "\<close> and \<open>": "\<close>.
\<close>

definition dumps_item :: "string \<times> string \<Rightarrow> string" where
  "dumps_item kv = py_encode_basestring_ascii (fst kv) @ '': '' @ snd kv"

fun json_dumps :: "json \<Rightarrow> string" where
  "json_dumps JNull = ''null''"
| "json_dumps (JBool b) = (if b then ''true'' else ''false'')"
| "json_dumps (JInt i) = int_str i"
| "json_dumps (JFloat r) =
     (if r = ''nan'' then ''NaN''
      else if r = ''inf'' then ''Infinity''
      else if r = ''-inf'' then ''-Infinity''
      else r)"
| "json_dumps (JStr s) = py_encode_basestring_ascii s"
| "json_dumps (JList xs) = ''['' @ join_str '', '' (map json_dumps xs) @ '']''"
| "json_dumps (JDict kvs) =
     ''{'' @ join_str '', ''
        (map dumps_item (sort_key fst (map (\<lambda>kv. (fst kv, json_dumps (snd kv))) kvs))) @ ''}''"

section \<open>\<open>hashlib.md5(...).hexdigest()\<close>\<close>

text \<open>
  The MD5 message digest (RFC 1321) over 32-bit words: the message is padded to a multiple
  of 64 bytes, each block of sixteen little-endian words goes through 64 rounds.
\<close>

definition rotl32 :: "nat \<Rightarrow> 32 word \<Rightarrow> 32 word" where
  "rotl32 s x = push_bit s x OR drop_bit (32 - s) x"

definition md5_s :: "nat list" where
  "md5_s = [7, 12, 17, 22, 7, 12, 17, 22, 7, 12, 17, 22, 7, 12, 17, 22,
            5, 9, 14, 20, 5, 9, 14, 20, 5, 9, 14, 20, 5, 9, 14, 20,
            4, 11, 16, 23, 4, 11, 16, 23, 4, 11, 16, 23, 4, 11, 16, 23,
            6, 10, 15, 21, 6, 10, 15, 21, 6, 10, 15, 21, 6, 10, 15, 21]"

definition md5_K :: "32 word list" where
  "md5_K =
    [0xd76aa478, 0xe8c7b756, 0x242070db, 0xc1bdceee, 0xf57c0faf, 0x4787c62a, 0xa8304613,
     0xfd469501, 0x698098d8, 0x8b44f7af, 0xffff5bb1, 0x895cd7be, 0x6b901122, 0xfd987193,
     0xa679438e, 0x49b40821, 0xf61e2562, 0xc040b340, 0x265e5a51, 0xe9b6c7aa, 0xd62f105d,
     0x02441453, 0xd8a1e681, 0xe7d3fbc8, 0x21e1cde6, 0xc33707d6, 0xf4d50d87, 0x455a14ed,
     0xa9e3e905, 0xfcefa3f8, 0x676f02d9, 0x8d2a4c8a, 0xfffa3942, 0x8771f681, 0x6d9d6122,
     0xfde5380c, 0xa4beea44, 0x4bdecfa9, 0xf6bb4b60, 0xbebfbc70, 0x289b7ec6, 0xeaa127fa,
     0xd4ef3085, 0x04881d05, 0xd9d4d039, 0xe6db99e5, 0x1fa27cf8, 0xc4ac5665, 0xf4292244,
     0x432aff97, 0xab9423a7, 0xfc93a039, 0x655b59c3, 0x8f0ccc92, 0xffeff47d, 0x85845dd1,
     0x6fa87e4f, 0xfe2ce6e0, 0xa3014314, 0x4e0811a1, 0xf7537e82, 0xbd3af235, 0x2ad7d2bb,
     0xeb86d391]"

type_synonym md5_state = "32 word \<times> 32 word \<times> 32 word \<times> 32 word"

fun md5_round :: "32 word list \<Rightarrow> md5_state \<Rightarrow> nat \<Rightarrow> md5_state" where
  "md5_round M (A, B, C, D) i =
     (let (F, g) =
            (if i < 16 then ((B AND C) OR (NOT B AND D), i)
             else if i < 32 then ((D AND B) OR (NOT D AND C), (5 * i + 1) mod 16)
             else if i < 48 then (B XOR C XOR D, (3 * i + 5) mod 16)
             else (C XOR (B OR NOT D), (7 * i) mod 16));
          F' = F + A + md5_K ! i + M ! g
      in (D, B + rotl32 (md5_s ! i) F', B, C))"

fun md5_words :: "nat list \<Rightarrow> 32 word list" where
  "md5_words (b0 # b1 # b2 # b3 # bs) =
     (word_of_nat b0 + 256 * word_of_nat b1 + 65536 * word_of_nat b2
        + 16777216 * word_of_nat b3) # md5_words bs"
| "md5_words _ = []"

definition md5_block :: "md5_state \<Rightarrow> nat list \<Rightarrow> md5_state" where
  "md5_block st chunk =
     (case st of (a0, b0, c0, d0) \<Rightarrow>
        (case fold (\<lambda>i acc. md5_round (md5_words chunk) acc i) [0..<64] st of
           (A, B, C, D) \<Rightarrow> (a0 + A, b0 + B, c0 + C, d0 + D)))"

definition md5_pad :: "nat list \<Rightarrow> nat list" where
  "md5_pad bs =
     bs @ [128] @ replicate ((119 - length bs mod 64) mod 64) 0 @
     map (\<lambda>k. ((8 * length bs) div 256 ^ k) mod 256) [0..<8]"

fun md5_blocks :: "md5_state \<Rightarrow> nat list \<Rightarrow> md5_state" where
  "md5_blocks st [] = st"
| "md5_blocks st bs = md5_blocks (md5_block st (take 64 bs)) (drop 64 bs)"

definition word_hex_le :: "32 word \<Rightarrow> string" where
  "word_hex_le w = concat (map (\<lambda>k. hex_byte ((unat w div 256 ^ k) mod 256)) [0..<4])"

definition md5_hexdigest :: "string \<Rightarrow> string" where
  "md5_hexdigest s =
     (case md5_blocks (0x67452301, 0xefcdab89, 0x98badcfe, 0x10325476)
             (md5_pad (map of_char s)) of
        (a, b, c, d) \<Rightarrow> word_hex_le a @ word_hex_le b @ word_hex_le c @ word_hex_le d)"

section \<open>ai.py: the LLM wrapper\<close>

text \<open>
  An element of \<open>chat_history\<close> is a plain string or a dict of string fields, its items in
  the order in which the dict was built.
\<close>

datatype msg = Str string | Dict "(string \<times> string) list"

fun msg_json :: "msg \<Rightarrow> json" where
  "msg_json (Str s) = JStr s"
| "msg_json (Dict kvs) = JDict (map (\<lambda>kv. (fst kv, JStr (snd kv))) kvs)"

definition generate_cache_key :: "msg list \<Rightarrow> string \<Rightarrow> int \<Rightarrow> bool \<Rightarrow> string" where
  "generate_cache_key chat_history model max_tokens json_mode =
     md5_hexdigest (json_dumps (JDict
       [(''chat_history'', JList (map msg_json chat_history)),
        (''model'', JStr model),
        (''max_tokens'', JInt max_tokens),
        (''json_mode'', JBool json_mode)]))"

text \<open>
  The request that reaches the chat-completions endpoint, and the outside world of a run:
  the files of the cache directory, the requests sent to the service so far, the progress
  file (absent, or the record last written), and the trace of what the run did.

  The trace holds the three \<open>log.info\<close> lines of the program (\<open>LoadFromCache\<close>, \<open>Skip\<close>,
  \<open>Processing\<close>), the \<open>print\<close> of the generated code, and \<open>MarkProcessed f\<close> for the
  statement \<open>self.processed_files.add(f)\<close>.
\<close>

record request =
  req_model :: string
  req_messages :: "msg list"
  req_max_tokens :: int
  req_json_object :: bool

datatype event =
    LoadFromCache string
  | Skip string
  | Processing string
  | Generated string json
  | MarkProcessed string

record progress_record =
  pr_processed_files :: "string list"
  pr_symbols :: "string list"
  pr_file_dep_graph :: "(string \<times> string list) list"

text \<open>
  A directory as \<open>os.walk\<close> lists it: the names of its files, and its subdirectories
  with their names.
\<close>

datatype dir = Dir "string list" "(string \<times> dir) list"

text \<open>
  What the program takes from outside and does not change:
  \<^item> \<open>service n req\<close>: what the \<open>n\<close>-th call of \<open>client.chat.completions.create\<close> does with
    \<open>req\<close>: it raises, or returns the content of the first choice (which may be \<open>None\<close>);
  \<^item> \<open>json_loads\<close>: \<open>json.loads\<close>;
  \<^item> \<open>set_iter\<close>: the order in which Python iterates over a set of strings;
  \<^item> \<open>py_repr\<close>: \<open>str()\<close> of a list or a dict;
  \<^item> \<open>working_dir\<close>, and \<open>tree\<close>: the directory it names (without entries when there
    is no such directory);
  \<^item> \<open>open_read path\<close>: what \<open>open(path, 'r', encoding='utf-8').read()\<close> returns or
    raises for a source file;
  \<^item> the two prompt templates, each given by the text around its \<open>%s\<close> places;
  \<^item> \<open>recursion_limit\<close>: how many nested calls of \<open>process_file\<close> the interpreter allows
    before it raises \<open>RecursionError\<close>.
\<close>

record env =
  service :: "nat \<Rightarrow> request \<Rightarrow> error + string option"
  json_loads :: "string \<Rightarrow> error + json"
  set_iter :: "string list \<Rightarrow> string list"
  py_repr :: "json \<Rightarrow> string"
  working_dir :: string
  tree :: dir
  open_read :: "string \<Rightarrow> error + string"
  prompt_parse_refs :: "string \<times> string"
  prompt_process_file :: "string \<times> string \<times> string"
  recursion_limit :: nat

record state =
  cache_files :: "string \<Rightarrow> string option"
  calls :: "request list"
  progress_file :: "progress_record option"
  trace :: "event list"
  file_dep_graph :: "(string \<times> string list) list"
  processed_files :: "string list"
  symbols :: "string list"

subsection \<open>\<open>os.path\<close>\<close>

definition path_join :: "string \<Rightarrow> string \<Rightarrow> string" where
  "path_join a b =
     (if b \<noteq> [] \<and> hd b = CHR ''/'' then b
      else if a = [] \<or> last a = CHR ''/'' then a @ b
      else a @ ''/'' @ b)"

definition basename :: "string \<Rightarrow> string" where
  "basename p = rev (takeWhile (\<lambda>c. c \<noteq> CHR ''/'') (rev p))"

subsection \<open>\<open>LLM.ask\<close>\<close>

definition normalize_msg :: "msg \<Rightarrow> msg" where
  "normalize_msg m =
     (case m of Str s \<Rightarrow> Dict [(''role'', ''user''), (''content'', s)] | Dict kvs \<Rightarrow> Dict kvs)"

definition cache_file :: "string \<Rightarrow> string \<Rightarrow> string" where
  "cache_file cache_dir cache_key = path_join cache_dir (cache_key @ ''.cache'')"

text \<open>
  Both cache functions open the file in text mode. On a POSIX system writing stores the
  text as it is, and reading returns it with universal newlines: every \<open>\r\n\<close> and
  every other \<open>\r\<close> comes back as \<open>\n\<close>. \<open>cache_files\<close> holds the text stored in each
  file.
\<close>

fun universal_newlines :: "string \<Rightarrow> string" where
  "universal_newlines [] = []"
| "universal_newlines [c] = (if c = CHR 0x0D then [CHR 0x0A] else [c])"
| "universal_newlines (c # d # cs) =
     (if c = CHR 0x0D \<and> d = CHR 0x0A then CHR 0x0A # universal_newlines cs
      else if c = CHR 0x0D then CHR 0x0A # universal_newlines (d # cs)
      else c # universal_newlines (d # cs))"

definition load_from_cache :: "string \<Rightarrow> string \<Rightarrow> state \<Rightarrow> string option" where
  "load_from_cache cache_key cache_dir w =
     (case cache_files w (cache_file cache_dir cache_key) of
        None \<Rightarrow> None
      | Some stored \<Rightarrow> Some (universal_newlines stored))"

text \<open>
  \<open>_save_to_cache\<close> first creates the directory: \<open>os.makedirs\<close> raises for the empty
  path and otherwise is taken to succeed (the directory can be created and written to).
  Then it opens the file for writing and writes the response. When the response is
  \<open>None\<close> the file has been truncated already when \<open>f.write\<close> raises.
\<close>

definition save_to_cache ::
  "string \<Rightarrow> string option \<Rightarrow> string \<Rightarrow> state \<Rightarrow> (error + unit) \<times> state" where
  "save_to_cache cache_key response cache_dir w =
     (if cache_dir = [] then (Inl FileNotFoundError, w)
      else
        (case response of
           Some r \<Rightarrow>
             (Inr (), w\<lparr>cache_files := (cache_files w)(cache_file cache_dir cache_key \<mapsto> r)\<rparr>)
         | None \<Rightarrow>
             (Inl TypeError,
              w\<lparr>cache_files := (cache_files w)(cache_file cache_dir cache_key \<mapsto> [])\<rparr>)))"

definition build_request :: "msg list \<Rightarrow> string \<Rightarrow> int \<Rightarrow> bool \<Rightarrow> request" where
  "build_request history model max_tokens json_mode =
     \<lparr>req_model = model,
      req_messages =
        Dict [(''role'', ''system''), (''content'', ''You are a helpful assistant.'')] # history,
      req_max_tokens = max_tokens,
      req_json_object = json_mode\<rparr>"

text \<open>\<open>if cached_response:\<close> holds for a string that is present and not empty.\<close>

definition truthy :: "string option \<Rightarrow> bool" where
  "truthy r = (case r of None \<Rightarrow> False | Some x \<Rightarrow> x \<noteq> [])"

definition ask ::
  "env \<Rightarrow> msg list \<Rightarrow> string \<Rightarrow> int \<Rightarrow> bool \<Rightarrow> bool \<Rightarrow> string \<Rightarrow> state
     \<Rightarrow> (error + string option) \<times> state" where
  "ask e chat_history model max_tokens json_mode cached_mode cache_dir w =
     (let history = map normalize_msg chat_history;
          cache_key = generate_cache_key chat_history model max_tokens json_mode;
          cached_response = load_from_cache cache_key cache_dir w
      in if cached_mode \<and> truthy cached_response
         then (Inr cached_response, w\<lparr>trace := trace w @ [LoadFromCache cache_key]\<rparr>)
         else
           (let req = build_request history model max_tokens json_mode;
                w1 = w\<lparr>calls := calls w @ [req]\<rparr>
            in case service e (length (calls w)) req of
                 Inl err \<Rightarrow> (Inl err, w1)
               | Inr result \<Rightarrow>
                   if cached_mode
                   then (case save_to_cache cache_key result cache_dir w1 of
                           (Inl err, w2) \<Rightarrow> (Inl err, w2)
                         | (Inr _, w2) \<Rightarrow> (Inr result, w2))
                   else (Inr result, w1)))"

section \<open>main.py\<close>

subsection \<open>Dynamic operations on parsed JSON\<close>

text \<open>\<open>for x in v\<close>: a list gives its elements, a string its characters, a dict its keys.\<close>

fun py_iter :: "json \<Rightarrow> error + json list" where
  "py_iter (JList xs) = Inr xs"
| "py_iter (JStr s) = Inr (map (\<lambda>c. JStr [c]) s)"
| "py_iter (JDict kvs) = Inr (map (\<lambda>kv. JStr (fst kv)) kvs)"
| "py_iter _ = Inl TypeError"

text \<open>\<open>v.get(key, default)\<close>: only a dict has the method.\<close>

fun dict_get :: "json \<Rightarrow> string \<Rightarrow> json \<Rightarrow> error + json" where
  "dict_get (JDict kvs) k d = Inr (case map_of kvs k of None \<Rightarrow> d | Some v \<Rightarrow> v)"
| "dict_get _ k d = Inl AttributeError"

text \<open>\<open>v[key]\<close> with a string key.\<close>

fun py_getitem :: "json \<Rightarrow> string \<Rightarrow> error + json" where
  "py_getitem (JDict kvs) k = (case map_of kvs k of None \<Rightarrow> Inl KeyError | Some v \<Rightarrow> Inr v)"
| "py_getitem _ k = Inl TypeError"

text \<open>How an f-string renders a value.\<close>

definition py_format :: "env \<Rightarrow> json \<Rightarrow> string" where
  "py_format e v =
     (case v of
        JStr s \<Rightarrow> s
      | JInt i \<Rightarrow> int_str i
      | JFloat r \<Rightarrow> r
      | JBool b \<Rightarrow> (if b then ''True'' else ''False'')
      | JNull \<Rightarrow> ''None''
      | _ \<Rightarrow> py_repr e v)"

definition format1 :: "string \<times> string \<Rightarrow> string \<Rightarrow> string" where
  "format1 t a = fst t @ a @ snd t"

definition format2 :: "string \<times> string \<times> string \<Rightarrow> string \<Rightarrow> string \<Rightarrow> string" where
  "format2 t a b = fst t @ a @ fst (snd t) @ b @ snd (snd t)"

text \<open>\<open>json.loads(resp["content"])\<close>: a content of \<open>None\<close> is a \<open>TypeError\<close>.\<close>

definition loads_content :: "env \<Rightarrow> string option \<Rightarrow> error + json" where
  "loads_content e content =
     (case content of None \<Rightarrow> Inl TypeError | Some c \<Rightarrow> json_loads e c)"

subsection \<open>\<open>scan_sql_files\<close>\<close>

text \<open>
  \<open>os.walk\<close> visits a directory, then each of its subdirectories in turn; it yields
  nothing for the empty path.
\<close>

fun walk_sql :: "string \<Rightarrow> dir \<Rightarrow> string list" where
  "walk_sql root (Dir files subdirs) =
     map (path_join root) (filter (\<lambda>f. endswith f ''.sql'') files) @
     concat (map (\<lambda>nd. walk_sql (path_join root (fst nd)) (snd nd)) subdirs)"

definition scan_sql_files :: "string \<Rightarrow> dir \<Rightarrow> string list" where
  "scan_sql_files directory t = (if directory = [] then [] else walk_sql directory t)"

subsection \<open>\<open>parse_refs\<close> and \<open>generate_java_code\<close>\<close>

definition parse_refs :: "env \<Rightarrow> string \<Rightarrow> state \<Rightarrow> (error + json) \<times> state" where
  "parse_refs e code w =
     (case ask e [Dict [(''role'', ''system''),
                        (''content'', format1 (prompt_parse_refs e) code)]]
             ''gpt-4o'' 16384 True True ''.cached'' w of
        (Inl err, w') \<Rightarrow> (Inl err, w')
      | (Inr content, w') \<Rightarrow> (loads_content e content, w'))"

definition generate_java_code ::
  "env \<Rightarrow> string \<Rightarrow> string list \<Rightarrow> state \<Rightarrow> (error + json \<times> json) \<times> state" where
  "generate_java_code e code predefined_symbols w =
     (let str_symbols = join_str [CHR 0x0A] (set_iter e predefined_symbols)
      in case ask e [Dict [(''role'', ''system''),
                           (''content'', format2 (prompt_process_file e) str_symbols code)]]
                ''gpt-4o'' 16384 True True ''.cached'' w of
           (Inl err, w') \<Rightarrow> (Inl err, w')
         | (Inr content, w') \<Rightarrow>
             (case loads_content e content of
                Inl err \<Rightarrow> (Inl err, w')
              | Inr obj \<Rightarrow>
                  (case py_getitem obj ''java_code'' of
                     Inl err \<Rightarrow> (Inl err, w')
                   | Inr java_code \<Rightarrow>
                       (case py_getitem obj ''symbols'' of
                          Inl err \<Rightarrow> (Inl err, w')
                        | Inr new_symbols \<Rightarrow> (Inr (java_code, new_symbols), w')))))"

subsection \<open>\<open>Processor.build_callgraph\<close>\<close>

text \<open>First loop: read every file and ask for its references.\<close>

fun read_all ::
  "env \<Rightarrow> string list \<Rightarrow> (string \<times> json) list \<Rightarrow> state
     \<Rightarrow> (error + (string \<times> json) list) \<times> state" where
  "read_all e [] file_refs w = (Inr file_refs, w)"
| "read_all e (sql_file # rest) file_refs w =
     (case open_read e sql_file of
        Inl err \<Rightarrow> (Inl err, w)
      | Inr code \<Rightarrow>
          (case parse_refs e code w of
             (Inl err, w') \<Rightarrow> (Inl err, w')
           | (Inr refs, w') \<Rightarrow> read_all e rest (dict_set sql_file refs file_refs) w'))"

text \<open>
  Second loop: the mapping from package name to file. A key that is a list or a dict
  cannot be hashed; a key that is neither that nor a string is stored by Python, and no
  lookup (always by a string) ever finds it, so the model leaves it out.
\<close>

fun add_packages ::
  "string \<Rightarrow> json list \<Rightarrow> (string \<times> string) list \<Rightarrow> error + (string \<times> string) list" where
  "add_packages filename [] package_2_file = Inr package_2_file"
| "add_packages filename (package_name # rest) package_2_file =
     (case package_name of
        JStr n \<Rightarrow> add_packages filename rest (dict_set n filename package_2_file)
      | JList _ \<Rightarrow> Inl TypeError
      | JDict _ \<Rightarrow> Inl TypeError
      | _ \<Rightarrow> add_packages filename rest package_2_file)"

fun build_package_2_file ::
  "(string \<times> json) list \<Rightarrow> (string \<times> string) list \<Rightarrow> error + (string \<times> string) list" where
  "build_package_2_file [] package_2_file = Inr package_2_file"
| "build_package_2_file ((sql_file, refs) # rest) package_2_file =
     (case dict_get refs ''package_name'' (JList []) of
        Inl err \<Rightarrow> Inl err
      | Inr package_names \<Rightarrow>
          (case py_iter package_names of
             Inl err \<Rightarrow> Inl err
           | Inr names \<Rightarrow>
               (case add_packages (basename sql_file) names package_2_file of
                  Inl err \<Rightarrow> Inl err
                | Inr package_2_file' \<Rightarrow> build_package_2_file rest package_2_file')))"

text \<open>Third loop: the set of files each file depends on.\<close>

fun dependent_files_of ::
  "string \<Rightarrow> (string \<times> string) list \<Rightarrow> json list \<Rightarrow> string list \<Rightarrow> error + string list" where
  "dependent_files_of filename package_2_file [] dependent_files = Inr dependent_files"
| "dependent_files_of filename package_2_file (dep # rest) dependent_files =
     (case dep of
        JStr d \<Rightarrow>
          (let package_name = takeWhile (\<lambda>c. c \<noteq> CHR ''.'') d
           in case map_of package_2_file package_name of
                None \<Rightarrow> dependent_files_of filename package_2_file rest dependent_files
              | Some dep_filename \<Rightarrow>
                  if dep_filename \<noteq> filename
                  then dependent_files_of filename package_2_file rest
                         (set_add dep_filename dependent_files)
                  else dependent_files_of filename package_2_file rest dependent_files)
      | _ \<Rightarrow> Inl AttributeError)"

fun build_graph ::
  "(string \<times> string) list \<Rightarrow> (string \<times> json) list \<Rightarrow> (string \<times> string list) list
     \<Rightarrow> error + (string \<times> string list) list" where
  "build_graph package_2_file [] graph = Inr graph"
| "build_graph package_2_file ((sql_file, refs) # rest) graph =
     (case dict_get refs ''deps'' (JList []) of
        Inl err \<Rightarrow> Inl err
      | Inr dependencies \<Rightarrow>
          (case py_iter dependencies of
             Inl err \<Rightarrow> Inl err
           | Inr deps \<Rightarrow>
               (case dependent_files_of (basename sql_file) package_2_file deps [] of
                  Inl err \<Rightarrow> Inl err
                | Inr dependent_files \<Rightarrow>
                    build_graph package_2_file rest
                      (dict_set (basename sql_file) dependent_files graph))))"

definition build_callgraph ::
  "env \<Rightarrow> state \<Rightarrow> (error + (string \<times> string list) list) \<times> state" where
  "build_callgraph e w =
     (let sql_files = scan_sql_files (working_dir e) (tree e)
      in case read_all e sql_files [] w of
           (Inl err, w') \<Rightarrow> (Inl err, w')
         | (Inr file_refs, w') \<Rightarrow>
             (case build_package_2_file file_refs [] of
                Inl err \<Rightarrow> (Inl err, w')
              | Inr package_2_file \<Rightarrow>
                  (case build_graph package_2_file file_refs [] of
                     Inl err \<Rightarrow> (Inl err, w')
                   | Inr graph \<Rightarrow>
                       (Inr (map (\<lambda>fd. (fst fd, set_iter e (snd fd))) graph), w'))))"

subsection \<open>Progress\<close>

definition load_progress :: "state \<Rightarrow> state" where
  "load_progress s =
     (case progress_file s of
        Some d \<Rightarrow>
          s\<lparr>processed_files := py_set (pr_processed_files d),
            symbols := py_set (pr_symbols d),
            file_dep_graph := pr_file_dep_graph d\<rparr>
      | None \<Rightarrow> s\<lparr>processed_files := [], symbols := [], file_dep_graph := []\<rparr>)"

definition save_progress :: "env \<Rightarrow> state \<Rightarrow> state" where
  "save_progress e s =
     s\<lparr>progress_file :=
         Some \<lparr>pr_processed_files = set_iter e (processed_files s),
               pr_symbols = set_iter e (symbols s),
               pr_file_dep_graph = file_dep_graph s\<rparr>\<rparr>"

text \<open>\<open>Processor.__init__\<close>: a new object, filled from the progress file when there is one.\<close>

definition init :: "env \<Rightarrow> state \<Rightarrow> (error + unit) \<times> state" where
  "init e w =
     (let s = w\<lparr>file_dep_graph := [], processed_files := [], symbols := []\<rparr>;
          s1 = (if progress_file s \<noteq> None then load_progress s else s)
      in if length (file_dep_graph s1) = 0
         then (case build_callgraph e s1 of
                 (Inl err, s2) \<Rightarrow> (Inl err, s2)
               | (Inr graph, s2) \<Rightarrow> (Inr (), s2\<lparr>file_dep_graph := graph\<rparr>))
         else (Inr (), s1))"

subsection \<open>\<open>Processor.process_file\<close> and \<open>Processor.process\<close>\<close>

definition graph_get :: "(string \<times> string list) list \<Rightarrow> string \<Rightarrow> string list" where
  "graph_get graph filename = (case map_of graph filename of None \<Rightarrow> [] | Some deps \<Rightarrow> deps)"

fun add_symbols :: "env \<Rightarrow> json list \<Rightarrow> state \<Rightarrow> (error + unit) \<times> state" where
  "add_symbols e [] s = (Inr (), s)"
| "add_symbols e (symbol # rest) s =
     (case py_getitem symbol ''oracle'' of
        Inl err \<Rightarrow> (Inl err, s)
      | Inr oracle \<Rightarrow>
          (case py_getitem symbol ''java'' of
             Inl err \<Rightarrow> (Inl err, s)
           | Inr java \<Rightarrow>
               add_symbols e rest
                 (s\<lparr>symbols :=
                      set_add (py_format e oracle @ '' -> '' @ py_format e java) (symbols s)\<rparr>)))"

text \<open>The body of \<open>process_file\<close> after its dependencies: lines 150 to 162.\<close>

definition transform_file :: "env \<Rightarrow> string \<Rightarrow> state \<Rightarrow> (error + unit) \<times> state" where
  "transform_file e filename s =
     (case open_read e (path_join (working_dir e) filename) of
        Inl err \<Rightarrow> (Inl err, s)
      | Inr code \<Rightarrow>
          (case generate_java_code e code (symbols s) s of
             (Inl err, s1) \<Rightarrow> (Inl err, s1)
           | (Inr (generated_code, new_symbols), s1) \<Rightarrow>
               (let s2 = s1\<lparr>trace := trace s1 @ [Generated filename generated_code]\<rparr>
                in case py_iter new_symbols of
                     Inl err \<Rightarrow> (Inl err, s2)
                   | Inr syms \<Rightarrow>
                       (case add_symbols e syms s2 of
                          (Inl err, s3) \<Rightarrow> (Inl err, s3)
                        | (Inr _, s3) \<Rightarrow>
                            (Inr (),
                             save_progress e
                               (s3\<lparr>processed_files := set_add filename (processed_files s3),
                                   trace := trace s3 @ [MarkProcessed filename]\<rparr>))))))"

text \<open>
  \<open>process_file\<close> with the number of nested calls the interpreter still allows, and the
  loop that calls it on each file of a list (the loop over the dependencies in line 147
  and the loop of \<open>process\<close>).
\<close>

fun process_file :: "env \<Rightarrow> nat \<Rightarrow> string \<Rightarrow> state \<Rightarrow> (error + unit) \<times> state"
  and process_files :: "env \<Rightarrow> nat \<Rightarrow> string list \<Rightarrow> state \<Rightarrow> (error + unit) \<times> state"
where
  "process_file e 0 filename s = (Inl RecursionError, s)"
| "process_file e (Suc depth) filename s =
     (if filename \<in> set (processed_files s)
      then (Inr (), s\<lparr>trace := trace s @ [Skip filename]\<rparr>)
      else (case process_files e depth (graph_get (file_dep_graph s) filename) s of
              (Inl err, s1) \<Rightarrow> (Inl err, s1)
            | (Inr _, s1) \<Rightarrow>
                transform_file e filename (s1\<lparr>trace := trace s1 @ [Processing filename]\<rparr>)))"
| "process_files e depth [] s = (Inr (), s)"
| "process_files e depth (file # rest) s =
     (case process_file e depth file s of
        (Inl err, s1) \<Rightarrow> (Inl err, s1)
      | (Inr _, s1) \<Rightarrow> process_files e depth rest s1)"

definition process :: "env \<Rightarrow> state \<Rightarrow> (error + unit) \<times> state" where
  "process e s = process_files e (recursion_limit e) (map fst (file_dep_graph s)) s"

text \<open>The script: \<open>Processor(working_dir).process()\<close>.\<close>

definition main :: "env \<Rightarrow> state \<Rightarrow> (error + unit) \<times> state" where
  "main e w =
     (case init e w of
        (Inl err, s) \<Rightarrow> (Inl err, s)
      | (Inr _, s) \<Rightarrow> process e s)"

section \<open>Notions used in the statements, and example runs\<close>

text \<open>
  Two chat messages with the same fields: equal strings, or dicts with the same items,
  whatever the order in which the items were inserted.
\<close>

fun same_fields :: "msg \<Rightarrow> msg \<Rightarrow> bool" where
  "same_fields (Str a) (Str b) = (a = b)"
| "same_fields (Dict kvs) (Dict kvs') =
     (distinct (map fst kvs) \<and> distinct (map fst kvs') \<and> set kvs = set kvs')"
| "same_fields _ _ = False"

definition ex_request_env :: "(nat \<Rightarrow> request \<Rightarrow> error + string option) \<Rightarrow> env" where
  "ex_request_env svc =
     \<lparr>service = svc, json_loads = (\<lambda>s. Inl JSONDecodeError), set_iter = (\<lambda>xs. xs),
      py_repr = (\<lambda>v. []), working_dir = ''work'', tree = Dir [] [],
      open_read = (\<lambda>p. Inl FileNotFoundError),
      prompt_parse_refs = ([], []), prompt_process_file = ([], [], []),
      recursion_limit = 1000\<rparr>"

definition empty_state :: state where
  "empty_state =
     \<lparr>cache_files = Map.empty, calls = [], progress_file = None, trace = [],
      file_dep_graph = [], processed_files = [], symbols = []\<rparr>"



section \<open>Properties of the LLM wrapper\<close>




lemma universal_newlines_empty [simp]: "universal_newlines s = [] \<longleftrightarrow> s = []"
  by (induction s rule: universal_newlines.induct) auto


lemma ask_miss:
  assumes "\<not> (cached_mode \<and> truthy (load_from_cache (generate_cache_key ch m t j) cd w))"
  shows "ask e ch m t j cached_mode cd w =
     (let req = build_request (map normalize_msg ch) m t j;
          w1 = w\<lparr>calls := calls w @ [req]\<rparr>
      in case service e (length (calls w)) req of
           Inl err \<Rightarrow> (Inl err, w1)
         | Inr result \<Rightarrow>
             if cached_mode
             then (case save_to_cache (generate_cache_key ch m t j) result cd w1 of
                     (Inl err, w2) \<Rightarrow> (Inl err, w2)
                   | (Inr _, w2) \<Rightarrow> (Inr result, w2))
             else (Inr result, w1))"
  using assms unfolding ask_def Let_def by (cases cached_mode) auto






text \<open>
  C5. When the service is invoked and raises, \<open>ask\<close> raises the same error; the cache files
  are what they were, and the service was invoked exactly once: the state differs from the
  one before only by the one request sent.
\<close>

theorem service_failure_propagates:
  assumes "ask e ch m t j cached_mode cd w = (r, w')"
      and "calls w' \<noteq> calls w"
      and "service e (length (calls w)) (build_request (map normalize_msg ch) m t j) = Inl err"
  shows "r = Inl err \<and> cache_files w' = cache_files w \<and>
         calls w' = calls w @ [build_request (map normalize_msg ch) m t j] \<and>
         w' = w\<lparr>calls := calls w @ [build_request (map normalize_msg ch) m t j]\<rparr>"
proof (cases "cached_mode \<and> truthy (load_from_cache (generate_cache_key ch m t j) cd w)")
  case True
  then have "calls w' = calls w"
    using assms(1) by (auto simp: ask_def Let_def)
  with assms(2) show ?thesis by simp
next
  case False
  then show ?thesis
    using assms(1,3) by (auto simp: ask_miss Let_def)
qed

theorem service_failure_propagates_witness:
  "ask (ex_request_env (\<lambda>n req. Inl (ServiceError ''timeout''))) [Str ''hi''] ''gpt-4o'' 16384
       False True ''.cached'' empty_state
     = (Inl (ServiceError ''timeout''),
        empty_state\<lparr>calls :=
          [build_request [Dict [(''role'', ''user''), (''content'', ''hi'')]] ''gpt-4o'' 16384
             False]\<rparr>)
   \<and> cache_files (snd (ask (ex_request_env (\<lambda>n req. Inl (ServiceError ''timeout'')))
         [Str ''hi''] ''gpt-4o'' 16384 False True ''.cached'' empty_state)) = Map.empty"
proof -
  let ?e = "ex_request_env (\<lambda>n req. Inl (ServiceError ''timeout''))"
  obtain r w' where
    a: "ask ?e [Str ''hi''] ''gpt-4o'' 16384 False True ''.cached'' empty_state = (r, w')"
    by (cases "ask ?e [Str ''hi''] ''gpt-4o'' 16384 False True ''.cached'' empty_state")
  have c: "calls w' \<noteq> calls empty_state"
    using a
    by (auto simp: ask_def Let_def truthy_def load_from_cache_def empty_state_def
          ex_request_env_def)
  have s: "service ?e (length (calls empty_state))
             (build_request (map normalize_msg [Str ''hi'']) ''gpt-4o'' 16384 False)
           = Inl (ServiceError ''timeout'')"
    by (simp add: ex_request_env_def)
  from service_failure_propagates [OF a c s] a
  show ?thesis by (simp add: normalize_msg_def empty_state_def)
qed

lemma distinct_keys_rebuild:
  assumes "distinct (map fst xs)"
  shows "xs = map (\<lambda>k. (k, the (map_of xs k))) (map fst xs)"
proof -
  have "(fst kv, the (map_of xs (fst kv))) = kv" if "kv \<in> set xs" for kv
    using map_of_is_SomeI [OF assms, of "fst kv" "snd kv"] that by simp
  then have "map (\<lambda>kv. (fst kv, the (map_of xs (fst kv)))) xs = xs"
    by (intro map_idI) simp
  then show ?thesis by (simp add: comp_def)
qed

lemma sort_key_fst_canonical:
  assumes "distinct (map fst xs)" "distinct (map fst ys)" "set xs = set ys"
  shows "sort_key fst xs = sort_key fst ys"
proof -
  let ?xs = "sort_key fst xs" and ?ys = "sort_key fst ys"
  have dx: "distinct (map fst ?xs)" and dy: "distinct (map fst ?ys)"
    using assms(1,2) by (simp_all add: distinct_map)
  have sx: "set ?xs = set ?ys" using assms(3) by simp
  have keys: "map fst ?xs = map fst ?ys"
  proof (rule sorted_distinct_set_unique)
    show "sorted (map fst ?xs)" "sorted (map fst ?ys)" by simp_all
    show "distinct (map fst ?xs)" "distinct (map fst ?ys)" by (rule dx, rule dy)
    show "set (map fst ?xs) = set (map fst ?ys)" using sx by simp
  qed
  have m: "map_of ?xs = map_of ?ys"
    using dx dy sx by (simp add: map_of_inject_set)
  have "?xs = map (\<lambda>k. (k, the (map_of ?xs k))) (map fst ?xs)"
    by (rule distinct_keys_rebuild [OF dx])
  also have "\<dots> = map (\<lambda>k. (k, the (map_of ?ys k))) (map fst ?ys)"
    by (simp only: keys m)
  also have "\<dots> = ?ys"
    by (rule distinct_keys_rebuild [OF dy, symmetric])
  finally show ?thesis .
qed

lemma json_dumps_dict_canonical:
  assumes "distinct (map fst kvs)" "distinct (map fst kvs')" "set kvs = set kvs'"
  shows "json_dumps (JDict kvs) = json_dumps (JDict kvs')"
proof -
  let ?g = "\<lambda>kv. (fst kv, json_dumps (snd kv))"
  have "map fst (map ?g kvs) = map fst kvs" "map fst (map ?g kvs') = map fst kvs'"
    by (simp_all add: comp_def)
  then have "sort_key fst (map ?g kvs) = sort_key fst (map ?g kvs')"
    using assms by (intro sort_key_fst_canonical) (simp_all add: comp_def)
  then show ?thesis by simp
qed

lemma msg_json_same_fields:
  "same_fields a b \<Longrightarrow> json_dumps (msg_json a) = json_dumps (msg_json b)"
proof (induction a b rule: same_fields.induct)
  case (2 kvs kvs')
  let ?g = "\<lambda>kv. (fst kv, JStr (snd kv))"
  have k: "map fst (map ?g kvs) = map fst kvs" "map fst (map ?g kvs') = map fst kvs'"
    by (simp_all add: comp_def)
  have "set (map ?g kvs) = set (map ?g kvs')" using 2 by simp
  then show ?case
    using 2 k unfolding msg_json.simps by (intro json_dumps_dict_canonical) (simp_all add: comp_def)
qed simp_all

text \<open>
  C4. The cache key is a function of its four arguments, and it does not depend on the
  order in which the fields of a message dict were inserted: chat histories whose messages
  have the same fields give the same key.
\<close>

theorem cache_key_field_order:
  assumes "list_all2 same_fields chat_history chat_history'"
  shows "generate_cache_key chat_history model max_tokens json_mode =
         generate_cache_key chat_history' model max_tokens json_mode"
proof -
  have "map (\<lambda>m. json_dumps (msg_json m)) chat_history =
        map (\<lambda>m. json_dumps (msg_json m)) chat_history'"
    using assms by (induction rule: list_all2_induct) (simp_all add: msg_json_same_fields)
  then show ?thesis
    by (simp add: generate_cache_key_def comp_def)
qed

theorem cache_key_field_order_witness:
  "list_all2 same_fields
     [Dict [(''role'', ''user''), (''content'', ''hi'')], Str ''more'']
     [Dict [(''content'', ''hi''), (''role'', ''user'')], Str ''more''] \<and>
   generate_cache_key [Dict [(''role'', ''user''), (''content'', ''hi'')], Str ''more''] ''gpt-4o'' 16384 True =
   generate_cache_key [Dict [(''content'', ''hi''), (''role'', ''user'')], Str ''more''] ''gpt-4o'' 16384 True"
proof -
  have h: "list_all2 same_fields
     [Dict [(''role'', ''user''), (''content'', ''hi'')], Str ''more'']
     [Dict [(''content'', ''hi''), (''role'', ''user'')], Str ''more'']"
    by auto
  from cache_key_field_order [OF h] h show ?thesis by blast
qed

section \<open>Two concrete digests\<close>

lemma replicate_numeral_Cons: "replicate (numeral k) x = x # replicate (pred_numeral k) x"
  by (simp add: numeral_eq_Suc)

lemma upt_64:
  "[0..<64] =
     [0, 1, 2, 3, 4, 5, 6, 7, 8, 9, 10, 11, 12, 13, 14, 15] @
     [16, 17, 18, 19, 20, 21, 22, 23, 24, 25, 26, 27, 28, 29, 30, 31] @
     [32, 33, 34, 35, 36, 37, 38, 39, 40, 41, 42, 43, 44, 45, 46, 47] @
     [48, 49, 50, 51, 52, 53, 54, 55, 56, 57, 58, 59, 60, 61, 62, 63]"
  by (simp add: upt_conv_Cons)

lemma fold_upt_64:
  "fold f [0..<64] s =
     fold f [48, 49, 50, 51, 52, 53, 54, 55, 56, 57, 58, 59, 60, 61, 62, 63]
       (fold f [32, 33, 34, 35, 36, 37, 38, 39, 40, 41, 42, 43, 44, 45, 46, 47]
         (fold f [16, 17, 18, 19, 20, 21, 22, 23, 24, 25, 26, 27, 28, 29, 30, 31]
           (fold f [0, 1, 2, 3, 4, 5, 6, 7, 8, 9, 10, 11, 12, 13, 14, 15] s)))"
  unfolding upt_64 fold_append by simp

lemma key_str_pad:
  "md5_pad (map of_char ''{\"chat_history\": [\"hi\"], \"json_mode\": false, \"max_tokens\": 16384, \"model\": \"gpt-4o\"}'') =
     [123, 34, 99, 104, 97, 116, 95, 104, 105, 115, 116, 111, 114, 121, 34, 58, 32, 91,
       34, 104, 105, 34, 93, 44, 32, 34, 106, 115, 111, 110, 95, 109, 111, 100, 101, 34,
       58, 32, 102, 97, 108, 115, 101, 44, 32, 34, 109, 97, 120, 95, 116, 111, 107, 101,
       110, 115, 34, 58, 32, 49, 54, 51, 56, 52, 44, 32, 34, 109, 111, 100, 101, 108, 34,
       58, 32, 34, 103, 112, 116, 45, 52, 111, 34, 125, 128, 0, 0, 0, 0, 0, 0, 0, 0, 0, 0,
       0, 0, 0, 0, 0, 0, 0, 0, 0, 0, 0, 0, 0, 0, 0, 0, 0, 0, 0, 0, 0, 0, 0, 0, 0, 160, 2,
       0, 0, 0, 0, 0, 0]"
  by (simp add: md5_pad_def replicate_numeral_Cons upt_conv_Cons)

lemma key_str_words0:
  "md5_words
     [123, 34, 99, 104, 97, 116, 95, 104, 105, 115, 116, 111, 114, 121, 34, 58, 32, 91,
       34, 104, 105, 34, 93, 44, 32, 34, 106, 115, 111, 110, 95, 109, 111, 100, 101, 34,
       58, 32, 102, 97, 108, 115, 101, 44, 32, 34, 109, 97, 120, 95, 116, 111, 107, 101,
       110, 115, 34, 58, 32, 49, 54, 51, 56, 52] =
     [1751327355, 1751086177, 1869902697, 975337842, 1747082016, 744301161, 1936335392,
       1834970735, 577070191, 1634082874, 744846188, 1634542112, 1869897592, 1936614763,
       824195618, 876098358]"
  by simp

lemma key_str_rounds0_0:
  "fold (\<lambda>i acc. md5_round
     [1751327355, 1751086177, 1869902697, 975337842, 1747082016, 744301161, 1936335392,
       1834970735, 577070191, 1634082874, 744846188, 1634542112, 1869897592, 1936614763,
       824195618, 876098358] acc i)
     [0, 1, 2, 3, 4, 5, 6, 7, 8, 9, 10, 11, 12, 13, 14, 15]
     (1732584193, 4023233417, 2562383102, 271733878) =
     (630519607, 4105100057, 871995960, 1039785237)"
  by (simp add: md5_s_def md5_K_def rotl32_def)

lemma key_str_rounds0_16:
  "fold (\<lambda>i acc. md5_round
     [1751327355, 1751086177, 1869902697, 975337842, 1747082016, 744301161, 1936335392,
       1834970735, 577070191, 1634082874, 744846188, 1634542112, 1869897592, 1936614763,
       824195618, 876098358] acc i)
     [16, 17, 18, 19, 20, 21, 22, 23, 24, 25, 26, 27, 28, 29, 30, 31]
     (630519607, 4105100057, 871995960, 1039785237) =
     (1001211198, 1288253280, 4196884697, 2554318396)"
  by (simp add: md5_s_def md5_K_def rotl32_def)

lemma key_str_rounds0_32:
  "fold (\<lambda>i acc. md5_round
     [1751327355, 1751086177, 1869902697, 975337842, 1747082016, 744301161, 1936335392,
       1834970735, 577070191, 1634082874, 744846188, 1634542112, 1869897592, 1936614763,
       824195618, 876098358] acc i)
     [32, 33, 34, 35, 36, 37, 38, 39, 40, 41, 42, 43, 44, 45, 46, 47]
     (1001211198, 1288253280, 4196884697, 2554318396) =
     (3184351573, 3945099175, 3289121238, 2426209322)"
  by (simp add: md5_s_def md5_K_def rotl32_def)

lemma key_str_rounds0_48:
  "fold (\<lambda>i acc. md5_round
     [1751327355, 1751086177, 1869902697, 975337842, 1747082016, 744301161, 1936335392,
       1834970735, 577070191, 1634082874, 744846188, 1634542112, 1869897592, 1936614763,
       824195618, 876098358] acc i)
     [48, 49, 50, 51, 52, 53, 54, 55, 56, 57, 58, 59, 60, 61, 62, 63]
     (3184351573, 3945099175, 3289121238, 2426209322) =
     (3695304349, 2552656327, 3217323631, 1582039385)"
  by (simp add: md5_s_def md5_K_def rotl32_def)

lemma key_str_block0:
  "md5_block (1732584193, 4023233417, 2562383102, 271733878)
     [123, 34, 99, 104, 97, 116, 95, 104, 105, 115, 116, 111, 114, 121, 34, 58, 32, 91,
       34, 104, 105, 34, 93, 44, 32, 34, 106, 115, 111, 110, 95, 109, 111, 100, 101, 34,
       58, 32, 102, 97, 108, 115, 101, 44, 32, 34, 109, 97, 120, 95, 116, 111, 107, 101,
       110, 115, 34, 58, 32, 49, 54, 51, 56, 52] =
     (1132921246, 2280922448, 1484739437, 1853773263)"
  unfolding md5_block_def key_str_words0 fold_upt_64 key_str_rounds0_0 key_str_rounds0_16 key_str_rounds0_32 key_str_rounds0_48
  by simp

lemma key_str_words1:
  "md5_words
     [44, 32, 34, 109, 111, 100, 101, 108, 34, 58, 32, 34, 103, 112, 116, 45, 52, 111, 34,
       125, 128, 0, 0, 0, 0, 0, 0, 0, 0, 0, 0, 0, 0, 0, 0, 0, 0, 0, 0, 0, 0, 0, 0, 0, 0, 0,
       0, 0, 0, 0, 0, 0, 0, 0, 0, 0, 160, 2, 0, 0, 0, 0, 0, 0] =
     [1830953004, 1818584175, 572537378, 762605671, 2099408692, 128, 0, 0, 0, 0, 0, 0, 0,
       0, 672, 0]"
  by simp

lemma key_str_rounds1_0:
  "fold (\<lambda>i acc. md5_round
     [1830953004, 1818584175, 572537378, 762605671, 2099408692, 128, 0, 0, 0, 0, 0, 0, 0,
       0, 672, 0] acc i)
     [0, 1, 2, 3, 4, 5, 6, 7, 8, 9, 10, 11, 12, 13, 14, 15]
     (1132921246, 2280922448, 1484739437, 1853773263) =
     (3022488540, 750812794, 1421266477, 3798195403)"
  by (simp add: md5_s_def md5_K_def rotl32_def)

lemma key_str_rounds1_16:
  "fold (\<lambda>i acc. md5_round
     [1830953004, 1818584175, 572537378, 762605671, 2099408692, 128, 0, 0, 0, 0, 0, 0, 0,
       0, 672, 0] acc i)
     [16, 17, 18, 19, 20, 21, 22, 23, 24, 25, 26, 27, 28, 29, 30, 31]
     (3022488540, 750812794, 1421266477, 3798195403) =
     (1595145013, 3930442008, 2026827998, 492603332)"
  by (simp add: md5_s_def md5_K_def rotl32_def)

lemma key_str_rounds1_32:
  "fold (\<lambda>i acc. md5_round
     [1830953004, 1818584175, 572537378, 762605671, 2099408692, 128, 0, 0, 0, 0, 0, 0, 0,
       0, 672, 0] acc i)
     [32, 33, 34, 35, 36, 37, 38, 39, 40, 41, 42, 43, 44, 45, 46, 47]
     (1595145013, 3930442008, 2026827998, 492603332) =
     (3928342023, 3088543943, 2542814370, 1881580031)"
  by (simp add: md5_s_def md5_K_def rotl32_def)

lemma key_str_rounds1_48:
  "fold (\<lambda>i acc. md5_round
     [1830953004, 1818584175, 572537378, 762605671, 2099408692, 128, 0, 0, 0, 0, 0, 0, 0,
       0, 672, 0] acc i)
     [48, 49, 50, 51, 52, 53, 54, 55, 56, 57, 58, 59, 60, 61, 62, 63]
     (3928342023, 3088543943, 2542814370, 1881580031) =
     (2951099168, 3802201638, 529677541, 4146317964)"
  by (simp add: md5_s_def md5_K_def rotl32_def)

lemma key_str_block1:
  "md5_block (1132921246, 2280922448, 1484739437, 1853773263)
     [44, 32, 34, 109, 111, 100, 101, 108, 34, 58, 32, 34, 103, 112, 116, 45, 52, 111, 34,
       125, 128, 0, 0, 0, 0, 0, 0, 0, 0, 0, 0, 0, 0, 0, 0, 0, 0, 0, 0, 0, 0, 0, 0, 0, 0, 0,
       0, 0, 0, 0, 0, 0, 0, 0, 0, 0, 160, 2, 0, 0, 0, 0, 0, 0] =
     (4084020414, 1788156790, 2014416978, 1705123931)"
  unfolding md5_block_def key_str_words1 fold_upt_64 key_str_rounds1_0 key_str_rounds1_16 key_str_rounds1_32 key_str_rounds1_48
  by simp

lemma key_str_digest:
  "md5_hexdigest ''{\"chat_history\": [\"hi\"], \"json_mode\": false, \"max_tokens\": 16384, \"model\": \"gpt-4o\"}'' = ''be346df3761b956a529011785b20a265''"
  unfolding md5_hexdigest_def key_str_pad
  by (simp add: key_str_block0 key_str_block1 word_hex_le_def hex_byte_def hex_digit_def upt_conv_Cons)

lemma key_dict_pad:
  "md5_pad (map of_char ''{\"chat_history\": [{\"content\": \"hi\", \"role\": \"user\"}], \"json_mode\": false, \"max_tokens\": 16384, \"model\": \"gpt-4o\"}'') =
     [123, 34, 99, 104, 97, 116, 95, 104, 105, 115, 116, 111, 114, 121, 34, 58, 32, 91,
       123, 34, 99, 111, 110, 116, 101, 110, 116, 34, 58, 32, 34, 104, 105, 34, 44, 32, 34,
       114, 111, 108, 101, 34, 58, 32, 34, 117, 115, 101, 114, 34, 125, 93, 44, 32, 34,
       106, 115, 111, 110, 95, 109, 111, 100, 101, 34, 58, 32, 102, 97, 108, 115, 101, 44,
       32, 34, 109, 97, 120, 95, 116, 111, 107, 101, 110, 115, 34, 58, 32, 49, 54, 51, 56,
       52, 44, 32, 34, 109, 111, 100, 101, 108, 34, 58, 32, 34, 103, 112, 116, 45, 52, 111,
       34, 125, 128, 0, 0, 0, 0, 0, 0, 136, 3, 0, 0, 0, 0, 0, 0]"
  by (simp add: md5_pad_def replicate_numeral_Cons upt_conv_Cons)

lemma key_dict_words0:
  "md5_words
     [123, 34, 99, 104, 97, 116, 95, 104, 105, 115, 116, 111, 114, 121, 34, 58, 32, 91,
       123, 34, 99, 111, 110, 116, 101, 110, 116, 34, 58, 32, 34, 104, 105, 34, 44, 32, 34,
       114, 111, 108, 101, 34, 58, 32, 34, 117, 115, 101, 114, 34, 125, 93, 44, 32, 34,
       106, 115, 111, 110, 95, 109, 111, 100, 101] =
     [1751327355, 1751086177, 1869902697, 975337842, 578509600, 1953394531, 578055781,
       1747066938, 539763305, 1819243042, 540680805, 1702065442, 1568481906, 1780621356,
       1601073011, 1701080941]"
  by simp

lemma key_dict_rounds0_0:
  "fold (\<lambda>i acc. md5_round
     [1751327355, 1751086177, 1869902697, 975337842, 578509600, 1953394531, 578055781,
       1747066938, 539763305, 1819243042, 540680805, 1702065442, 1568481906, 1780621356,
       1601073011, 1701080941] acc i)
     [0, 1, 2, 3, 4, 5, 6, 7, 8, 9, 10, 11, 12, 13, 14, 15]
     (1732584193, 4023233417, 2562383102, 271733878) =
     (3288275972, 3650458751, 236229280, 36223117)"
  by (simp add: md5_s_def md5_K_def rotl32_def)

lemma key_dict_rounds0_16:
  "fold (\<lambda>i acc. md5_round
     [1751327355, 1751086177, 1869902697, 975337842, 578509600, 1953394531, 578055781,
       1747066938, 539763305, 1819243042, 540680805, 1702065442, 1568481906, 1780621356,
       1601073011, 1701080941] acc i)
     [16, 17, 18, 19, 20, 21, 22, 23, 24, 25, 26, 27, 28, 29, 30, 31]
     (3288275972, 3650458751, 236229280, 36223117) =
     (1307891385, 3961316226, 177625832, 3935523311)"
  by (simp add: md5_s_def md5_K_def rotl32_def)

lemma key_dict_rounds0_32:
  "fold (\<lambda>i acc. md5_round
     [1751327355, 1751086177, 1869902697, 975337842, 578509600, 1953394531, 578055781,
       1747066938, 539763305, 1819243042, 540680805, 1702065442, 1568481906, 1780621356,
       1601073011, 1701080941] acc i)
     [32, 33, 34, 35, 36, 37, 38, 39, 40, 41, 42, 43, 44, 45, 46, 47]
     (1307891385, 3961316226, 177625832, 3935523311) =
     (3155519482, 651257389, 4199516530, 3778353704)"
  by (simp add: md5_s_def md5_K_def rotl32_def)

lemma key_dict_rounds0_48:
  "fold (\<lambda>i acc. md5_round
     [1751327355, 1751086177, 1869902697, 975337842, 578509600, 1953394531, 578055781,
       1747066938, 539763305, 1819243042, 540680805, 1702065442, 1568481906, 1780621356,
       1601073011, 1701080941] acc i)
     [48, 49, 50, 51, 52, 53, 54, 55, 56, 57, 58, 59, 60, 61, 62, 63]
     (3155519482, 651257389, 4199516530, 3778353704) =
     (964514400, 961152170, 798705242, 3134150350)"
  by (simp add: md5_s_def md5_K_def rotl32_def)

lemma key_dict_block0:
  "md5_block (1732584193, 4023233417, 2562383102, 271733878)
     [123, 34, 99, 104, 97, 116, 95, 104, 105, 115, 116, 111, 114, 121, 34, 58, 32, 91,
       123, 34, 99, 111, 110, 116, 101, 110, 116, 34, 58, 32, 34, 104, 105, 34, 44, 32, 34,
       114, 111, 108, 101, 34, 58, 32, 34, 117, 115, 101, 114, 34, 125, 93, 44, 32, 34,
       106, 115, 111, 110, 95, 109, 111, 100, 101] =
     (2697098593, 689418291, 3361088344, 3405884228)"
  unfolding md5_block_def key_dict_words0 fold_upt_64 key_dict_rounds0_0 key_dict_rounds0_16 key_dict_rounds0_32 key_dict_rounds0_48
  by simp

lemma key_dict_words1:
  "md5_words
     [34, 58, 32, 102, 97, 108, 115, 101, 44, 32, 34, 109, 97, 120, 95, 116, 111, 107,
       101, 110, 115, 34, 58, 32, 49, 54, 51, 56, 52, 44, 32, 34, 109, 111, 100, 101, 108,
       34, 58, 32, 34, 103, 112, 116, 45, 52, 111, 34, 125, 128, 0, 0, 0, 0, 0, 0, 136, 3,
       0, 0, 0, 0, 0, 0] =
     [1713388066, 1702063201, 1830953004, 1952413793, 1852140399, 540680819, 942880305,
       572533812, 1701080941, 540680812, 1953523490, 577713197, 32893, 0, 904, 0]"
  by simp

lemma key_dict_rounds1_0:
  "fold (\<lambda>i acc. md5_round
     [1713388066, 1702063201, 1830953004, 1952413793, 1852140399, 540680819, 942880305,
       572533812, 1701080941, 540680812, 1953523490, 577713197, 32893, 0, 904, 0] acc i)
     [0, 1, 2, 3, 4, 5, 6, 7, 8, 9, 10, 11, 12, 13, 14, 15]
     (2697098593, 689418291, 3361088344, 3405884228) =
     (1567333345, 3117502853, 317044999, 902338149)"
  by (simp add: md5_s_def md5_K_def rotl32_def)

lemma key_dict_rounds1_16:
  "fold (\<lambda>i acc. md5_round
     [1713388066, 1702063201, 1830953004, 1952413793, 1852140399, 540680819, 942880305,
       572533812, 1701080941, 540680812, 1953523490, 577713197, 32893, 0, 904, 0] acc i)
     [16, 17, 18, 19, 20, 21, 22, 23, 24, 25, 26, 27, 28, 29, 30, 31]
     (1567333345, 3117502853, 317044999, 902338149) =
     (1051834418, 2008949536, 228119244, 2262663867)"
  by (simp add: md5_s_def md5_K_def rotl32_def)

lemma key_dict_rounds1_32:
  "fold (\<lambda>i acc. md5_round
     [1713388066, 1702063201, 1830953004, 1952413793, 1852140399, 540680819, 942880305,
       572533812, 1701080941, 540680812, 1953523490, 577713197, 32893, 0, 904, 0] acc i)
     [32, 33, 34, 35, 36, 37, 38, 39, 40, 41, 42, 43, 44, 45, 46, 47]
     (1051834418, 2008949536, 228119244, 2262663867) =
     (1700232533, 3179169200, 2322775674, 1515495680)"
  by (simp add: md5_s_def md5_K_def rotl32_def)

lemma key_dict_rounds1_48:
  "fold (\<lambda>i acc. md5_round
     [1713388066, 1702063201, 1830953004, 1952413793, 1852140399, 540680819, 942880305,
       572533812, 1701080941, 540680812, 1953523490, 577713197, 32893, 0, 904, 0] acc i)
     [48, 49, 50, 51, 52, 53, 54, 55, 56, 57, 58, 59, 60, 61, 62, 63]
     (1700232533, 3179169200, 2322775674, 1515495680) =
     (2087167810, 2419998038, 1289816385, 1650152335)"
  by (simp add: md5_s_def md5_K_def rotl32_def)

lemma key_dict_block1:
  "md5_block (2697098593, 689418291, 3361088344, 3405884228)
     [34, 58, 32, 102, 97, 108, 115, 101, 44, 32, 34, 109, 97, 120, 95, 116, 111, 107,
       101, 110, 115, 34, 58, 32, 49, 54, 51, 56, 52, 44, 32, 34, 109, 111, 100, 101, 108,
       34, 58, 32, 34, 103, 112, 116, 45, 52, 111, 34, 125, 128, 0, 0, 0, 0, 0, 0, 136, 3,
       0, 0, 0, 0, 0, 0] =
     (489299107, 3109416329, 355937433, 761069267)"
  unfolding md5_block_def key_dict_words1 fold_upt_64 key_dict_rounds1_0 key_dict_rounds1_16 key_dict_rounds1_32 key_dict_rounds1_48
  by simp

lemma key_dict_digest:
  "md5_hexdigest ''{\"chat_history\": [{\"content\": \"hi\", \"role\": \"user\"}], \"json_mode\": false, \"max_tokens\": 16384, \"model\": \"gpt-4o\"}'' = ''a31c2a1d89ed55b9992c3715d3fe5c2d''"
  unfolding md5_hexdigest_def key_dict_pad
  by (simp add: key_dict_block0 key_dict_block1 word_hex_le_def hex_byte_def hex_digit_def upt_conv_Cons)


lemma key_of_plain_string:
  "generate_cache_key [Str ''hi''] ''gpt-4o'' 16384 False = ''be346df3761b956a529011785b20a265''"
  by (simp add: generate_cache_key_def dumps_item_def py_encode_basestring_ascii_def
        escape_char_def int_str_def nat_str.simps digit_char_def key_str_digest)

lemma key_of_normalized_dict:
  "generate_cache_key [Dict [(''role'', ''user''), (''content'', ''hi'')]] ''gpt-4o'' 16384 False
     = ''a31c2a1d89ed55b9992c3715d3fe5c2d''"
  by (simp add: generate_cache_key_def dumps_item_def py_encode_basestring_ascii_def
        escape_char_def int_str_def nat_str.simps digit_char_def key_dict_digest)

text \<open>
  C10. The key is derived from \<open>chat_history\<close> as passed, before the plain strings are turned
  into user messages. The plain string \<open>hi\<close> and the dict it is normalized to give the same
  request, and two different keys: after a call with the first, a call with the second
  does not find the entry and sends the same request again.
\<close>

theorem cache_key_before_normalization:
  "build_request (map normalize_msg [Str ''hi'']) ''gpt-4o'' 16384 False =
   build_request (map normalize_msg [Dict [(''role'', ''user''), (''content'', ''hi'')]])
     ''gpt-4o'' 16384 False \<and>
   generate_cache_key [Str ''hi''] ''gpt-4o'' 16384 False = ''be346df3761b956a529011785b20a265'' \<and>
   generate_cache_key [Dict [(''role'', ''user''), (''content'', ''hi'')]] ''gpt-4o'' 16384 False
     = ''a31c2a1d89ed55b9992c3715d3fe5c2d'' \<and>
   generate_cache_key [Str ''hi''] ''gpt-4o'' 16384 False \<noteq>
   generate_cache_key [Dict [(''role'', ''user''), (''content'', ''hi'')]] ''gpt-4o'' 16384 False \<and>
   calls (snd (ask (ex_request_env (\<lambda>n req. Inr (Some ''B'')))
                 [Dict [(''role'', ''user''), (''content'', ''hi'')]] ''gpt-4o'' 16384 False True
                 ''.cached''
                 (snd (ask (ex_request_env (\<lambda>n req. Inr (Some ''A''))) [Str ''hi''] ''gpt-4o''
                         16384 False True ''.cached'' empty_state)))) =
     [build_request [Dict [(''role'', ''user''), (''content'', ''hi'')]] ''gpt-4o'' 16384 False,
      build_request [Dict [(''role'', ''user''), (''content'', ''hi'')]] ''gpt-4o'' 16384 False]"
  by (simp add: key_of_plain_string key_of_normalized_dict normalize_msg_def ask_def Let_def
        truthy_def load_from_cache_def save_to_cache_def cache_file_def path_join_def
        empty_state_def ex_request_env_def)


end
